theory Spec2Isabelle
  imports Complex_Main
begin

section \<open>JavaScript numbers\<close>

text \<open>
  Every coordinate, property and intermediate result of the click-routing code is a
  JavaScript number. The model keeps the three special values of IEEE 754 that the code
  can produce (a division by zero, \<open>parseInt\<close> of a non-number, arithmetic on
  \<open>undefined\<close>). In the hit tests the finite values are taken as exact reals:
  there neither rounding nor overflow is modelled, and on integer coordinates and
  properties below \<open>2 ^ 53\<close> the sums, differences and products of the code are
  exact as well. The
  dimensions of a text are products with the constant \<open>1.1\<close>, which is no double;
  they are rounded as the code rounds them (\<open>to_double\<close> below). The sign of zero is
  not modelled: a finite non-zero value divided by zero is \<open>PosInf\<close> or \<open>NegInf\<close>
  by the sign of the numerator, as for a positive zero.
\<close>

datatype jsnum = Fin real | PosInf | NegInf | NaN

fun jneg :: "jsnum \<Rightarrow> jsnum" where
  "jneg (Fin a) = Fin (- a)"
| "jneg PosInf = NegInf"
| "jneg NegInf = PosInf"
| "jneg NaN = NaN"

fun jadd :: "jsnum \<Rightarrow> jsnum \<Rightarrow> jsnum" where
  "jadd NaN _ = NaN"
| "jadd _ NaN = NaN"
| "jadd (Fin a) (Fin b) = Fin (a + b)"
| "jadd PosInf NegInf = NaN"
| "jadd NegInf PosInf = NaN"
| "jadd PosInf _ = PosInf"
| "jadd NegInf _ = NegInf"
| "jadd (Fin a) b = b"

definition jsub :: "jsnum \<Rightarrow> jsnum \<Rightarrow> jsnum" where
  "jsub a b = jadd a (jneg b)"

text \<open>The sign of an infinite product or quotient: \<open>True\<close> is positive.\<close>

definition inf_of :: "bool \<Rightarrow> jsnum" where
  "inf_of pos = (if pos then PosInf else NegInf)"

fun jmul :: "jsnum \<Rightarrow> jsnum \<Rightarrow> jsnum" where
  "jmul NaN _ = NaN"
| "jmul _ NaN = NaN"
| "jmul (Fin a) (Fin b) = Fin (a * b)"
| "jmul (Fin a) PosInf = (if a = 0 then NaN else inf_of (0 < a))"
| "jmul (Fin a) NegInf = (if a = 0 then NaN else inf_of (a < 0))"
| "jmul PosInf (Fin b) = (if b = 0 then NaN else inf_of (0 < b))"
| "jmul NegInf (Fin b) = (if b = 0 then NaN else inf_of (b < 0))"
| "jmul PosInf PosInf = PosInf"
| "jmul PosInf NegInf = NegInf"
| "jmul NegInf PosInf = NegInf"
| "jmul NegInf NegInf = PosInf"

fun jdiv :: "jsnum \<Rightarrow> jsnum \<Rightarrow> jsnum" where
  "jdiv NaN _ = NaN"
| "jdiv _ NaN = NaN"
| "jdiv (Fin a) (Fin b) =
     (if b \<noteq> 0 then Fin (a / b) else if a = 0 then NaN else inf_of (0 < a))"
| "jdiv (Fin a) PosInf = Fin 0"
| "jdiv (Fin a) NegInf = Fin 0"
| "jdiv PosInf (Fin b) = inf_of (0 \<le> b)"
| "jdiv NegInf (Fin b) = inf_of (b < 0)"
| "jdiv PosInf _ = NaN"
| "jdiv NegInf _ = NaN"

text \<open>Comparisons: every comparison with \<open>NaN\<close> is false.\<close>

fun jlt :: "jsnum \<Rightarrow> jsnum \<Rightarrow> bool" where
  "jlt NaN _ = False"
| "jlt _ NaN = False"
| "jlt (Fin a) (Fin b) = (a < b)"
| "jlt (Fin a) PosInf = True"
| "jlt NegInf (Fin b) = True"
| "jlt NegInf PosInf = True"
| "jlt _ _ = False"

definition jgt :: "jsnum \<Rightarrow> jsnum \<Rightarrow> bool" where
  "jgt a b = jlt b a"

fun jle :: "jsnum \<Rightarrow> jsnum \<Rightarrow> bool" where
  "jle NaN _ = False"
| "jle _ NaN = False"
| "jle (Fin a) (Fin b) = (a \<le> b)"
| "jle PosInf PosInf = True"
| "jle NegInf _ = True"
| "jle _ PosInf = True"
| "jle _ _ = False"

definition jge :: "jsnum \<Rightarrow> jsnum \<Rightarrow> bool" where
  "jge a b = jle b a"

fun Math_abs :: "jsnum \<Rightarrow> jsnum" where
  "Math_abs (Fin a) = Fin \<bar>a\<bar>"
| "Math_abs PosInf = PosInf"
| "Math_abs NegInf = PosInf"
| "Math_abs NaN = NaN"

fun Math_sqrt :: "jsnum \<Rightarrow> jsnum" where
  "Math_sqrt (Fin a) = (if a < 0 then NaN else Fin (sqrt a))"
| "Math_sqrt PosInf = PosInf"
| "Math_sqrt NegInf = NaN"
| "Math_sqrt NaN = NaN"

text \<open>\<open>Math.pow(a, 2)\<close>, the only power the code takes.\<close>

definition Math_pow2 :: "jsnum \<Rightarrow> jsnum" where
  "Math_pow2 a = jmul a a"

fun jmin :: "jsnum \<Rightarrow> jsnum \<Rightarrow> jsnum" where
  "jmin NaN _ = NaN"
| "jmin _ NaN = NaN"
| "jmin a b = (if jlt b a then b else a)"

fun jmax :: "jsnum \<Rightarrow> jsnum \<Rightarrow> jsnum" where
  "jmax NaN _ = NaN"
| "jmax _ NaN = NaN"
| "jmax a b = (if jlt a b then b else a)"

text \<open>\<open>Math.min(...xs)\<close> and \<open>Math.max(...xs)\<close>, with their values on no argument.\<close>

definition Math_min :: "jsnum list \<Rightarrow> jsnum" where
  "Math_min xs = foldl jmin PosInf xs"

definition Math_max :: "jsnum list \<Rightarrow> jsnum" where
  "Math_max xs = foldl jmax NegInf xs"

fun isFinite :: "jsnum \<Rightarrow> bool" where
  "isFinite (Fin a) = True"
| "isFinite _ = False"

fun isNaN :: "jsnum \<Rightarrow> bool" where
  "isNaN NaN = True"
| "isNaN _ = False"

text \<open>Truthiness of a number: \<open>0\<close> and \<open>NaN\<close> are falsy.\<close>

fun truthy :: "jsnum \<Rightarrow> bool" where
  "truthy (Fin a) = (a \<noteq> 0)"
| "truthy PosInf = True"
| "truthy NegInf = True"
| "truthy NaN = False"

text \<open>
  A property that may be absent is a \<open>jsnum option\<close>, \<open>None\<close> for \<open>undefined\<close>.
  In arithmetic and in a comparison \<open>undefined\<close> converts to \<open>NaN\<close>; \<open>a || d\<close>
  is \<open>a\<close> when \<open>a\<close> is truthy and \<open>d\<close> otherwise.
\<close>

fun toNumber :: "jsnum option \<Rightarrow> jsnum" where
  "toNumber None = NaN"
| "toNumber (Some a) = a"

fun truthy_opt :: "jsnum option \<Rightarrow> bool" where
  "truthy_opt None = False"
| "truthy_opt (Some a) = truthy a"

definition or_default :: "jsnum option \<Rightarrow> jsnum \<Rightarrow> jsnum" where
  "or_default a d = (if truthy_opt a then toNumber a else d)"

subsection \<open>Rounding to a double\<close>

text \<open>
  The number of binary digits of a positive integer, and the exponent \<open>e\<close> of a
  positive real \<open>r\<close>, the integer with \<open>2 ^ e \<le> r < 2 ^ (e + 1)\<close>.
\<close>

function bits :: "int \<Rightarrow> int" where
  "bits n = (if n \<le> 0 then 0 else 1 + bits (n div 2))"
  by pat_completeness auto
termination
  by (relation "measure nat") auto

declare bits.simps [simp del]

definition pow2 :: "int \<Rightarrow> real" where
  "pow2 k = (if 0 \<le> k then 2 ^ nat k else 1 / 2 ^ nat (- k))"

definition exponent :: "real \<Rightarrow> int" where
  "exponent r =
     (if 1 \<le> r then bits \<lfloor>r\<rfloor> - 1
      else let k = bits \<lfloor>1 / r\<rfloor>
           in if 1 \<le> r * pow2 (k - 1) then - (k - 1) else - k)"

text \<open>
  The nearest integer, a tie going to the even one; and the nearest double of a real:
  53 significant binary digits for a normal number, the fixed step \<open>2 ^ - 1074\<close> below
  \<open>2 ^ - 1022\<close>.
\<close>

definition round_half_even :: "real \<Rightarrow> int" where
  "round_half_even m =
     (let f = \<lfloor>m\<rfloor>; d = m - of_int f
      in if d < 1 / 2 then f
         else if 1 / 2 < d then f + 1
         else if even f then f else f + 1)"

definition fl :: "real \<Rightarrow> real" where
  "fl r =
     (if r = 0 then 0
      else let q = pow2 (max (exponent \<bar>r\<bar>) (- 1022) - 52)
           in sgn r * of_int (round_half_even (\<bar>r\<bar> / q)) * q)"

text \<open>
  The double of a real result: what rounds to \<open>2 ^ 1024\<close> or beyond, a value of
  exponent 1024 or more, is infinite.
\<close>

definition to_double :: "real \<Rightarrow> jsnum" where
  "to_double r = (if 1024 \<le> exponent \<bar>fl r\<bar> then inf_of (0 < r) else Fin (fl r))"

text \<open>The product and the difference of two doubles, rounded.\<close>

definition dmul :: "jsnum \<Rightarrow> jsnum \<Rightarrow> jsnum" where
  "dmul a b = (case jmul a b of Fin r \<Rightarrow> to_double r | v \<Rightarrow> v)"

definition dsub :: "jsnum \<Rightarrow> jsnum \<Rightarrow> jsnum" where
  "dsub a b = (case jsub a b of Fin r \<Rightarrow> to_double r | v \<Rightarrow> v)"

section \<open>Strings: split and parseInt\<close>

text \<open>
  \<open>s.split(c)\<close> for a one-character separator: the pieces between the separators,
  empty pieces kept, one piece for a string without separator (also the empty one).
\<close>

fun split_on :: "char \<Rightarrow> string \<Rightarrow> string list" where
  "split_on c [] = [[]]"
| "split_on c (d # s) =
     (if d = c then [] # split_on c s
      else (case split_on c s of
              [] \<Rightarrow> [[d]]
            | w # ws \<Rightarrow> (d # w) # ws))"

text \<open>
  \<open>parseInt(s)\<close> with no radix: white space is skipped, a sign is read, a prefix
  \<open>0x\<close> or \<open>0X\<close> selects base 16, and the longest prefix of digits of the base is
  the value; with no digit the result is \<open>NaN\<close>. Strings are byte strings here, so
  the white space is the ASCII one.
\<close>

definition is_space :: "char \<Rightarrow> bool" where
  "is_space c = (c = CHR '' '' \<or> c = CHR 0x09 \<or> c = CHR 0x0A \<or> c = CHR 0x0B
                 \<or> c = CHR 0x0C \<or> c = CHR 0x0D)"

definition digit_val :: "char \<Rightarrow> nat option" where
  "digit_val c =
     (let n = (of_char c :: nat) in
      if 48 \<le> n \<and> n \<le> 57 then Some (n - 48)
      else if 97 \<le> n \<and> n \<le> 122 then Some (n - 87)
      else if 65 \<le> n \<and> n \<le> 90 then Some (n - 55)
      else None)"

definition is_digit :: "nat \<Rightarrow> char \<Rightarrow> bool" where
  "is_digit radix c = (case digit_val c of None \<Rightarrow> False | Some d \<Rightarrow> d < radix)"

definition digits_value :: "nat \<Rightarrow> string \<Rightarrow> nat" where
  "digits_value radix ds =
     foldl (\<lambda>acc c. acc * radix + (case digit_val c of None \<Rightarrow> 0 | Some d \<Rightarrow> d)) 0 ds"

definition parse_digits :: "nat \<Rightarrow> string \<Rightarrow> int option" where
  "parse_digits radix s =
     (let ds = takeWhile (is_digit radix) s
      in if ds = [] then None else Some (int (digits_value radix ds)))"

definition parse_unsigned :: "string \<Rightarrow> int option" where
  "parse_unsigned s =
     (case s of
        a # b # rest \<Rightarrow>
          (if a = CHR ''0'' \<and> (b = CHR ''x'' \<or> b = CHR ''X'') then parse_digits 16 rest
           else parse_digits 10 s)
      | _ \<Rightarrow> parse_digits 10 s)"

definition parseInt :: "string \<Rightarrow> jsnum" where
  "parseInt s =
     (let t = dropWhile is_space s;
          (sign, u) = (case t of
                         c # r \<Rightarrow> (if c = CHR ''-'' then (- 1, r)
                                    else if c = CHR ''+'' then (1, r) else (1, t))
                       | [] \<Rightarrow> (1, t))
      in case parse_unsigned u of
           None \<Rightarrow> NaN
         | Some n \<Rightarrow> Fin (of_int (sign * n)))"

text \<open>
  \<open>parseInt(a[i])\<close> on an array of strings: past the end \<open>a[i]\<close> is \<open>undefined\<close>,
  which \<open>parseInt\<close> reads as the text \<open>undefined\<close>, so the result is \<open>NaN\<close>.
\<close>

fun parseInt_at :: "string list \<Rightarrow> nat \<Rightarrow> jsnum" where
  "parseInt_at [] i = NaN"
| "parseInt_at (s # ss) 0 = parseInt s"
| "parseInt_at (s # ss) (Suc i) = parseInt_at ss i"

section \<open>Elements\<close>

text \<open>
  A JSX element has a type, properties and children. The element types that the
  registry builder tells apart are named; every other one (\<open>Rect\<close>, \<open>Image\<close>,
  \<open>Path\<close>, \<open>DynamicSVG\<close>, the HTML wrappers but \<open>H1\<close>) is \<open>Other\<close>.
\<close>

datatype kind = Circle | Ellipse | Polygon | Line | Toggle | Text | Link | H1 | Other

text \<open>
  A thrown value is \<open>null\<close> or \<open>undefined\<close>, on which reading a property throws
  in turn, or any other value, kept with the text that \<open>console.log\<close> prints for its
  \<open>message\<close> property (the text \<open>undefined\<close> for a value without one).
\<close>

datatype thrown = Thrown string | ThrownNullish

definition type_error :: thrown where
  "type_error = Thrown ''TypeError: cannot read properties of undefined''"

text \<open>
  An \<open>onClick\<close> callback is called with the clicked coordinate. What it does is its
  own business; the model records that it was called and whether it returns
  (\<open>None\<close>) or throws, and what.
\<close>

record callback =
  cb_id :: nat
  cb_throws :: "jsnum \<Rightarrow> jsnum \<Rightarrow> thrown option"

record props =
  p_x :: "jsnum option"
  p_y :: "jsnum option"
  p_width :: "jsnum option"
  p_height :: "jsnum option"
  p_onClick :: "callback option"
  p_cx :: "jsnum option"
  p_cy :: "jsnum option"
  p_radius :: "jsnum option"
  p_rx :: "jsnum option"
  p_ry :: "jsnum option"
  p_points :: "string option"
  p_x1 :: "jsnum option"
  p_y1 :: "jsnum option"
  p_x2 :: "jsnum option"
  p_y2 :: "jsnum option"
  p_strokeWidth :: "jsnum option"
  p_fontSize :: "jsnum option"

text \<open>
  The \<open>children\<close> property is absent, one child or an array of children; a child is
  an element or a string.
\<close>

datatype 'a kids = NoKids | One 'a | Many "'a list"

datatype node = Str string | Elem kind props "node kids"

fun node_truthy :: "node \<Rightarrow> bool" where
  "node_truthy (Str s) = (s \<noteq> [])"
| "node_truthy (Elem k p ks) = True"

fun kids_truthy :: "node kids \<Rightarrow> bool" where
  "kids_truthy NoKids = False"
| "kids_truthy (One c) = node_truthy c"
| "kids_truthy (Many cs) = True"

text \<open>
  \<open>getChildrenRecursive\<close>: the element itself, then its descendants in document order.
  A string has no \<open>props\<close>, so it is returned alone.
\<close>

fun getChildrenRecursive :: "node \<Rightarrow> node list" where
  "getChildrenRecursive (Str s) = [Str s]"
| "getChildrenRecursive (Elem k p NoKids) = [Elem k p NoKids]"
| "getChildrenRecursive (Elem k p (One c)) =
     (if node_truthy c then Elem k p (One c) # getChildrenRecursive c
      else [Elem k p (One c)])"
| "getChildrenRecursive (Elem k p (Many cs)) =
     Elem k p (Many cs) # concat (map getChildrenRecursive cs)"

section \<open>Hit tests of the shapes\<close>

definition margin :: jsnum where
  "margin = Fin 15"

definition Line_doesContainPoint :: "props \<Rightarrow> jsnum \<Rightarrow> jsnum \<Rightarrow> bool" where
  "Line_doesContainPoint p nx ny =
     (let x1 = toNumber (p_x1 p); y1 = toNumber (p_y1 p);
          x2 = toNumber (p_x2 p); y2 = toNumber (p_y2 p);
          line_m = jdiv (jsub (jadd y2 margin) (jadd y1 margin))
                        (jsub (jadd x2 margin) (jadd x1 margin));
          line_b = jsub (jadd y1 margin) (jmul line_m (jadd x1 margin))
      in jlt (Math_abs (jsub ny (jadd (jmul line_m nx) line_b))) (toNumber (p_strokeWidth p)))"

text \<open>\<open>Math.sqrt(a) < r\<close>, the one use of the square root.\<close>

definition sqrt_less :: "jsnum \<Rightarrow> jsnum \<Rightarrow> bool" where
  "sqrt_less a r = jlt (Math_sqrt a) r"

definition Circle_doesContainPoint :: "props \<Rightarrow> jsnum \<Rightarrow> jsnum \<Rightarrow> bool" where
  "Circle_doesContainPoint p x y =
     (let radius = toNumber (p_radius p); cx = toNumber (p_cx p); cy = toNumber (p_cy p)
      in sqrt_less (jadd (Math_pow2 (jsub x (jadd cx margin)))
                         (Math_pow2 (jsub y (jadd cy margin)))) radius)"

definition Ellipse_doesContainPoint :: "props \<Rightarrow> jsnum \<Rightarrow> jsnum \<Rightarrow> bool" where
  "Ellipse_doesContainPoint p x y =
     (let rx = toNumber (p_rx p); ry = toNumber (p_ry p);
          cx = toNumber (p_cx p); cy = toNumber (p_cy p)
      in jlt (jadd (Math_pow2 (jdiv (jsub (jsub x cx) margin) rx))
                   (Math_pow2 (jdiv (jsub (jsub y cy) margin) ry))) (Fin 1))"

definition Toggle_doesContainPoint :: "props \<Rightarrow> jsnum \<Rightarrow> jsnum \<Rightarrow> bool" where
  "Toggle_doesContainPoint p x y =
     (let toggleX = toNumber (p_x p); toggleY = toNumber (p_y p)
      in jge x (jadd margin toggleX) \<and> jle x (jadd (jadd margin toggleX) (Fin 100)) \<and>
         jge y (jadd margin toggleY) \<and> jle y (jadd (jadd margin toggleY) (Fin 20)))"

subsection \<open>Polygon\<close>

type_synonym point = "jsnum \<times> jsnum"

definition Polygon_points :: "string \<Rightarrow> point list" where
  "Polygon_points s =
     map (\<lambda>pt. (jadd margin (parseInt_at pt 0), jadd margin (parseInt_at pt 1)))
         (map (split_on (CHR '','')) (split_on (CHR '' '') s))"

text \<open>The edge of index \<open>i\<close> runs from point \<open>i\<close> to point \<open>(i + 1) mod n\<close>.\<close>

definition Polygon_edges :: "point list \<Rightarrow> (point \<times> point) list" where
  "Polygon_edges pts =
     map (\<lambda>i. (pts ! i, pts ! ((i + 1) mod length pts))) [0..<length pts]"

record bounds =
  minX :: jsnum
  maxX :: jsnum
  minY :: jsnum
  maxY :: jsnum

definition bounding_box :: "point list \<Rightarrow> bounds" where
  "bounding_box pts =
     \<lparr>minX = Math_min (map fst pts), maxX = Math_max (map fst pts),
      minY = Math_min (map snd pts), maxY = Math_max (map snd pts)\<rparr>"

definition outside_box :: "bounds \<Rightarrow> jsnum \<Rightarrow> jsnum \<Rightarrow> bool" where
  "outside_box b x y = (jlt x (minX b) \<or> jgt x (maxX b) \<or> jlt y (minY b) \<or> jgt y (maxY b))"

text \<open>
  The intersection of the ray's line (slope \<open>ray_m\<close>, intercept \<open>ray_b\<close>) with the
  line of an edge.
\<close>

definition intersection :: "jsnum \<Rightarrow> jsnum \<Rightarrow> point \<times> point \<Rightarrow> point" where
  "intersection ray_m ray_b e =
     (case e of ((ex1, ey1), (ex2, ey2)) \<Rightarrow>
        let edge_m = jdiv (jsub ey2 ey1) (jsub ex2 ex1);
            edge_b = jsub ey1 (jmul edge_m ex1);
            x0 = jdiv (jsub edge_b ray_b) (jsub ray_m edge_m);
            y0 = jadd (jmul ray_m (jdiv (jsub edge_b ray_b) (jsub ray_m edge_m))) ray_b
        in (x0, y0))"

text \<open>
  The condition under which the loop counts an edge: the intersection is finite and lies
  in the rectangle spanned by the ray's two end points and in the polygon's bounding box.
\<close>

definition counted :: "bounds \<Rightarrow> point \<Rightarrow> point \<Rightarrow> point \<Rightarrow> bool" where
  "counted b r1 r2 i =
     (case (r1, r2, i) of ((rx1, ry1), (rx2, ry2), (x0, y0)) \<Rightarrow>
        isFinite x0 \<and> \<not> isNaN x0 \<and> isFinite y0 \<and> \<not> isNaN y0 \<and>
        jge x0 (jmin rx1 rx2) \<and> jle x0 (jmax rx1 rx2) \<and>
        jge y0 (jmin ry1 ry2) \<and> jle y0 (jmax ry1 ry2) \<and>
        jge x0 (minX b) \<and> jle x0 (maxX b) \<and> jge y0 (minY b) \<and> jle y0 (maxY b))"

definition intersections :: "point list \<Rightarrow> jsnum \<Rightarrow> jsnum \<Rightarrow> nat" where
  "intersections pts x y =
     (case pts of
        [] \<Rightarrow> 0
      | p0 # _ \<Rightarrow>
          let r1 = (fst p0, Fin (- 100)); r2 = (x, y);
              ray_m = jdiv (jsub (snd r2) (snd r1)) (jsub (fst r2) (fst r1));
              ray_b = jsub (snd r1) (jmul ray_m (fst r1))
          in length (filter (\<lambda>e. counted (bounding_box pts) r1 r2 (intersection ray_m ray_b e))
                            (Polygon_edges pts)))"

text \<open>
  The test starts with \<open>polygon.props.points.split\<close>: on a polygon without
  \<open>points\<close> this throws a \<open>TypeError\<close>.
\<close>

definition Polygon_doesContainPoint :: "props \<Rightarrow> jsnum \<Rightarrow> jsnum \<Rightarrow> thrown + bool" where
  "Polygon_doesContainPoint p x y =
     (case p_points p of
        None \<Rightarrow> Inl type_error
      | Some s \<Rightarrow>
          let pts = Polygon_points s
          in if outside_box (bounding_box pts) x y then Inr False
             else Inr (intersections pts x y mod 2 \<noteq> 0))"

section \<open>Text dimensions\<close>

text \<open>
  \<open>children.toString()\<close>: a string is itself, an element prints as
  \<open>[object Object]\<close>, an array joins its members with commas; on absent children the
  call throws a \<open>TypeError\<close>.
\<close>

fun node_toString :: "node \<Rightarrow> string" where
  "node_toString (Str s) = s"
| "node_toString (Elem k p ks) = ''[object Object]''"

fun join_comma :: "string list \<Rightarrow> string" where
  "join_comma [] = []"
| "join_comma [s] = s"
| "join_comma (s # t # ss) = s @ '','' @ join_comma (t # ss)"

fun kids_toString :: "node kids \<Rightarrow> string option" where
  "kids_toString NoKids = None"
| "kids_toString (One c) = Some (node_toString c)"
| "kids_toString (Many cs) = Some (join_comma (map node_toString cs))"

datatype error = MissingGeometry string | TypeError string

definition text_lines :: "string \<Rightarrow> string list" where
  "text_lines s = split_on (CHR 0x0A) s"

text \<open>The two computed dimensions of \<open>Text.computeDimensions\<close>.\<close>

text \<open>
  The literal \<open>1.1\<close> is the double nearest to \<open>11 / 10\<close>; every product and the
  difference are rounded to doubles, from left to right as the code evaluates them.
\<close>

definition textHeight :: "jsnum option \<Rightarrow> string \<Rightarrow> jsnum" where
  "textHeight fontSize s =
     dmul (dmul (to_double (11 / 10)) (or_default fontSize (Fin 16)))
          (Fin (real (length (text_lines s) + 1)))"

definition textWidth :: "jsnum option \<Rightarrow> string \<Rightarrow> jsnum" where
  "textWidth fontSize s =
     dsub (dmul (Math_max (map (\<lambda>line. Fin (real (length line))) (text_lines s)))
                (or_default fontSize (Fin 16)))
          (or_default fontSize (Fin 16))"

definition Text_computeDimensions :: "props \<Rightarrow> node kids \<Rightarrow> error + (jsnum \<times> jsnum)" where
  "Text_computeDimensions p children =
     (let width = p_width p; height = p_height p; fontSize = p_fontSize p
      in if truthy_opt width \<and> truthy_opt height then Inr (toNumber width, toNumber height)
         else case kids_toString children of
                None \<Rightarrow> Inl (TypeError ''Cannot read properties of undefined'')
              | Some s \<Rightarrow>
                  if truthy_opt width \<and> \<not> truthy_opt height
                    then Inr (toNumber width, textHeight fontSize s)
                  else if \<not> truthy_opt width \<and> truthy_opt height
                    then Inr (textWidth fontSize s, toNumber height)
                  else Inr (textWidth fontSize s, textHeight fontSize s))"

section \<open>Click handlers\<close>

text \<open>
  The registry is the array \<open>clickHandlers\<close> of closures. A closure is one of two
  shapes: the one pushed for a top-level child that has an \<open>onClick\<close>, and the one
  pushed for an element of \<open>getChildrenRecursive child\<close> that has one, which carries
  the element's type, its properties and its computed dimensions.

  The closures of a top-level child read the variable \<open>heightUpToNow\<close>, declared once
  before the loop over the children, when they are called: every one of them sees the
  value the variable has after the loop. The registry keeps that value beside the
  handlers.
\<close>

datatype handler =
    TopLevel props callback
  | Nested kind props callback "jsnum option" "jsnum option"

record registry =
  handlers :: "handler list"
  heightUpToNow :: jsnum

text \<open>The condition of a top-level closure, as the source writes it.\<close>

definition TopLevel_hit :: "jsnum \<Rightarrow> props \<Rightarrow> jsnum \<Rightarrow> jsnum \<Rightarrow> bool" where
  "TopLevel_hit h p x y =
     (jgt x (toNumber (p_x p)) \<or>
      jlt x (jadd (toNumber (p_x p)) (toNumber (p_width p))) \<or>
      jgt y (jadd h (toNumber (p_y p))) \<or>
      jlt y (jadd (jadd h (toNumber (p_y p))) (toNumber (p_height p))))"

text \<open>The test of an element that is none of the five shapes.\<close>

definition generic_hit :: "props \<Rightarrow> jsnum option \<Rightarrow> jsnum option \<Rightarrow> jsnum \<Rightarrow> jsnum \<Rightarrow> bool" where
  "generic_hit p w h x y =
     (jgt x (jadd margin (toNumber (p_x p))) \<and>
      jlt x (jsub (jadd (toNumber (p_x p)) (toNumber w)) margin) \<and>
      jgt y (jadd margin (toNumber (p_y p))) \<and>
      jlt y (jadd (toNumber (p_y p)) (toNumber h)))"

text \<open>
  The hit test of a nested closure: the chain of type tests of the source. It stands
  before the \<open>try\<close> block, so what the polygon test throws leaves the closure.
\<close>

definition Nested_hit ::
  "kind \<Rightarrow> props \<Rightarrow> jsnum option \<Rightarrow> jsnum option \<Rightarrow> jsnum \<Rightarrow> jsnum \<Rightarrow> thrown + bool" where
  "Nested_hit k p w h x y =
     (if k = Line then Inr (Line_doesContainPoint p x y)
      else if k = Circle then Inr (Circle_doesContainPoint p x y)
      else if k = Ellipse then Inr (Ellipse_doesContainPoint p x y)
      else if k = Polygon then Polygon_doesContainPoint p x y
      else if k = Toggle then Inr (Toggle_doesContainPoint p x y)
      else Inr (generic_hit p w h x y))"

text \<open>
  What running the program leaves behind: the calls of callbacks, in order, and the
  lines written to the console.
\<close>

datatype event = Called nat jsnum jsnum | ConsoleLog string

text \<open>
  Calling a handler: the returned boolean, or the value thrown out of it. A top-level
  closure calls the callback unprotected. A nested one calls it in a \<open>try\<close> block:
  the \<open>catch\<close> block logs \<open>error.message\<close> and returns \<open>false\<close>; when the thrown
  value is \<open>null\<close> or \<open>undefined\<close>, reading \<open>message\<close> throws a \<open>TypeError\<close>
  out of the \<open>catch\<close> block, before anything is logged.
\<close>

fun run_handler ::
  "jsnum \<Rightarrow> handler \<Rightarrow> jsnum \<Rightarrow> jsnum \<Rightarrow> event list \<Rightarrow> (thrown + bool) \<times> event list" where
  "run_handler hgt (TopLevel p cb) x y tr =
     (if TopLevel_hit hgt p x y
      then (case cb_throws cb x y of
              None \<Rightarrow> (Inr True, tr @ [Called (cb_id cb) x y])
            | Some v \<Rightarrow> (Inl v, tr @ [Called (cb_id cb) x y]))
      else (Inr False, tr))"
| "run_handler hgt (Nested k p cb w h) x y tr =
     (case Nested_hit k p w h x y of
        Inl e \<Rightarrow> (Inl e, tr)
      | Inr False \<Rightarrow> (Inr False, tr)
      | Inr True \<Rightarrow>
          (case cb_throws cb x y of
             None \<Rightarrow> (Inr True, tr @ [Called (cb_id cb) x y])
           | Some (Thrown msg) \<Rightarrow> (Inr False, tr @ [Called (cb_id cb) x y, ConsoleLog msg])
           | Some ThrownNullish \<Rightarrow> (Inl type_error, tr @ [Called (cb_id cb) x y])))"

section \<open>The event dispatcher\<close>

text \<open>
  The loop over \<open>clickHandlers\<close>: it breaks at the first handler that returns
  \<open>true\<close>. The first component of the result is the value thrown out of the loop, if
  one was: the dispatcher is an \<open>async\<close> function, whose promise is then rejected
  with it.
\<close>

fun scan ::
  "jsnum \<Rightarrow> handler list \<Rightarrow> jsnum \<Rightarrow> jsnum \<Rightarrow> event list \<Rightarrow> thrown option \<times> event list" where
  "scan hgt [] x y tr = (None, tr)"
| "scan hgt (c # cs) x y tr =
     (case run_handler hgt c x y tr of
        (Inl e, tr') \<Rightarrow> (Some e, tr')
      | (Inr True, tr') \<Rightarrow> (None, tr')
      | (Inr False, tr') \<Rightarrow> scan hgt cs x y tr')"

definition clickHandler :: "registry \<Rightarrow> string \<Rightarrow> event list \<Rightarrow> thrown option \<times> event list" where
  "clickHandler reg output tr =
     (let coords = split_on (CHR '','') output
      in if length coords \<noteq> 2 then (None, tr)
         else scan (heightUpToNow reg) (handlers reg)
                (parseInt_at coords 0) (parseInt_at coords 1) tr)"

section \<open>The registry builder\<close>

definition msg_props :: string where
  "msg_props = ''Child of clickable element must have x, y, width, and height props''"

definition msg_explicit :: string where
  "msg_explicit = ''Child of clickable element must have explicit dimensions and position.''"

text \<open>
  The body of the inner loop for one element of \<open>getChildrenRecursive child\<close>: the
  handlers it pushes (none or one), or the error it throws.
\<close>

fun register_nested :: "node \<Rightarrow> error + handler list" where
  "register_nested (Str s) = Inr []"
| "register_nested (Elem k p ks) =
     (case p_onClick p of
        None \<Rightarrow> Inr []
      | Some cb \<Rightarrow>
          if (p_x p = None \<or> p_y p = None) \<and>
             k \<noteq> Circle \<and> k \<noteq> Ellipse \<and> k \<noteq> Polygon \<and> k \<noteq> Line
          then (if k = H1 \<and> (p_width p = None \<or> p_height p = None)
                then Inl (MissingGeometry msg_props)
                else Inl (MissingGeometry msg_explicit))
          else if k = Text \<or> k = Link
          then (case Text_computeDimensions p ks of
                  Inl e \<Rightarrow> Inl e
                | Inr (w, h) \<Rightarrow> Inr [Nested k p cb (Some w) (Some h)])
          else Inr [Nested k p cb (p_width p) (p_height p)])"

fun register_all :: "node list \<Rightarrow> handler list \<Rightarrow> error + handler list" where
  "register_all [] acc = Inr acc"
| "register_all (n # ns) acc =
     (case register_nested n of
        Inl e \<Rightarrow> Inl e
      | Inr hs \<Rightarrow> register_all ns (acc @ hs))"

text \<open>
  The loop over the top-level children, with \<open>newClickHandlers\<close> and
  \<open>heightUpToNow\<close> as accumulators. A top-level child that is a string has no
  \<open>props\<close>: reading \<open>child.props.onClick\<close> throws.
\<close>

fun build_loop :: "node list \<Rightarrow> handler list \<Rightarrow> jsnum \<Rightarrow> error + handler list \<times> jsnum" where
  "build_loop [] acc hgt = Inr (acc, hgt)"
| "build_loop (Str s # cs) acc hgt = Inl (TypeError ''Cannot read properties of undefined'')"
| "build_loop (Elem k p ks # cs) acc hgt =
     (let acc1 = (case p_onClick p of None \<Rightarrow> acc | Some cb \<Rightarrow> acc @ [TopLevel p cb])
      in case (if kids_truthy ks then register_all (getChildrenRecursive (Elem k p ks)) acc1
               else Inr acc1) of
           Inl e \<Rightarrow> Inl e
         | Inr acc2 \<Rightarrow> build_loop cs acc2 (jadd hgt (or_default (p_height p) (Fin 0))))"

definition build :: "node list \<Rightarrow> error + registry" where
  "build children =
     (case build_loop children [] (Fin 0) of
        Inl e \<Rightarrow> Inl e
      | Inr (hs, hgt) \<Rightarrow> Inr \<lparr>handlers = hs, heightUpToNow = hgt\<rparr>)"

text \<open>
  The effect that rebuilds the registry: nothing happens while loading is awaited; an
  error leaves the state as it was; the new handlers are stored unless every one of
  them is already in the old array, which for fresh closures is the case only of the
  empty array.
\<close>

definition rebuild :: "bool \<Rightarrow> bool \<Rightarrow> node list \<Rightarrow> registry \<Rightarrow> error + registry" where
  "rebuild isLoading waitUntilAllLoaded children old =
     (if isLoading \<and> waitUntilAllLoaded then Inr old
      else case build children of
             Inl e \<Rightarrow> Inl e
           | Inr new \<Rightarrow> if handlers new = [] then Inr old else Inr new)"

text \<open>The elements of a tree that carry a callback, and those among a list of nodes.\<close>

fun interactive :: "node \<Rightarrow> bool" where
  "interactive (Str s) = False"
| "interactive (Elem k p ks) = (p_onClick p \<noteq> None)"

text \<open>
  The interactive nodes of the input tree in depth-first, sibling-ordered traversal:
  \<open>getChildrenRecursive\<close> lists a child with its descendants in that order.
\<close>

definition interactive_nodes :: "node list \<Rightarrow> node list" where
  "interactive_nodes children = filter interactive (concat (map getChildrenRecursive children))"

text \<open>
  The hit test of a handler and its callback; a handler misses a point when its hit test
  returns \<open>false\<close> and hits it when the test returns \<open>true\<close>.
\<close>

fun handler_hit :: "jsnum \<Rightarrow> jsnum \<Rightarrow> jsnum \<Rightarrow> handler \<Rightarrow> thrown + bool" where
  "handler_hit hgt x y (TopLevel p cb) = Inr (TopLevel_hit hgt p x y)"
| "handler_hit hgt x y (Nested k p cb w h) = Nested_hit k p w h x y"


definition misses :: "jsnum \<Rightarrow> jsnum \<Rightarrow> jsnum \<Rightarrow> handler \<Rightarrow> bool" where
  "misses hgt x y c = (handler_hit hgt x y c = Inr False)"


section \<open>The polygon test as the specification words it\<close>

text \<open>
  The specification restricts a counted crossing to the ray's bounding segment, to the
  bounding segment of the edge itself and to the polygon's bounding box; the comment in
  the source says the same (\<open>within the bounds of the ray and the edge\<close>). The
  definitions below follow these words: \<open>counted\<close> and the edge's own bounds.
\<close>

definition within_edge :: "point \<times> point \<Rightarrow> point \<Rightarrow> bool" where
  "within_edge e i =
     (case (e, i) of (((ex1, ey1), (ex2, ey2)), (x0, y0)) \<Rightarrow>
        jge x0 (jmin ex1 ex2) \<and> jle x0 (jmax ex1 ex2) \<and>
        jge y0 (jmin ey1 ey2) \<and> jle y0 (jmax ey1 ey2))"

definition intersections_spec :: "point list \<Rightarrow> jsnum \<Rightarrow> jsnum \<Rightarrow> nat" where
  "intersections_spec pts x y =
     (case pts of
        [] \<Rightarrow> 0
      | p0 # _ \<Rightarrow>
          let r1 = (fst p0, Fin (- 100)); r2 = (x, y);
              ray_m = jdiv (jsub (snd r2) (snd r1)) (jsub (fst r2) (fst r1));
              ray_b = jsub (snd r1) (jmul ray_m (fst r1))
          in length (filter (\<lambda>e. counted (bounding_box pts) r1 r2 (intersection ray_m ray_b e)
                                  \<and> within_edge e (intersection ray_m ray_b e))
                            (Polygon_edges pts)))"

definition Polygon_doesContainPoint_spec :: "props \<Rightarrow> jsnum \<Rightarrow> jsnum \<Rightarrow> thrown + bool" where
  "Polygon_doesContainPoint_spec p x y =
     (case p_points p of
        None \<Rightarrow> Inl type_error
      | Some s \<Rightarrow>
          let pts = Polygon_points s
          in if outside_box (bounding_box pts) x y then Inr False
             else Inr (intersections_spec pts x y mod 2 \<noteq> 0))"

section \<open>Example inputs\<close>

definition no_props :: props where
  "no_props =
     \<lparr>p_x = None, p_y = None, p_width = None, p_height = None, p_onClick = None,
      p_cx = None, p_cy = None, p_radius = None, p_rx = None, p_ry = None, p_points = None,
      p_x1 = None, p_y1 = None, p_x2 = None, p_y2 = None, p_strokeWidth = None,
      p_fontSize = None\<rparr>"

definition box :: "real \<Rightarrow> real \<Rightarrow> real \<Rightarrow> real \<Rightarrow> props" where
  "box a b w h =
     no_props\<lparr>p_x := Some (Fin a), p_y := Some (Fin b),
              p_width := Some (Fin w), p_height := Some (Fin h)\<rparr>"

definition returning :: "nat \<Rightarrow> callback" where
  "returning n = \<lparr>cb_id = n, cb_throws = (\<lambda>x y. None)\<rparr>"

definition throwing :: "nat \<Rightarrow> string \<Rightarrow> callback" where
  "throwing n msg = \<lparr>cb_id = n, cb_throws = (\<lambda>x y. Some (Thrown msg))\<rparr>"

definition throwing_null :: "nat \<Rightarrow> callback" where
  "throwing_null n = \<lparr>cb_id = n, cb_throws = (\<lambda>x y. Some ThrownNullish)\<rparr>"

text \<open>A box with a callback, and a \<open>DynamicSVG\<close> of a declared height around children.\<close>

definition clickable :: "real \<Rightarrow> real \<Rightarrow> real \<Rightarrow> real \<Rightarrow> callback \<Rightarrow> props" where
  "clickable a b w h cb = (box a b w h)\<lparr>p_onClick := Some cb\<rparr>"

definition svg :: "jsnum option \<Rightarrow> node list \<Rightarrow> node" where
  "svg h cs = Elem Other (no_props\<lparr>p_height := h\<rparr>) (Many cs)"

text \<open>Two overlapping boxes \<open>A\<close> then \<open>B\<close> inside one top-level child.\<close>

definition overlapping :: "callback \<Rightarrow> callback \<Rightarrow> node list" where
  "overlapping cbA cbB =
     [svg None [Elem Other (clickable 0 0 100 100 cbA) NoKids,
                Elem Other (clickable 20 20 100 100 cbB) NoKids]]"

text \<open>A circle whose callback throws, declared before a box that covers it.\<close>

definition circle_then_box :: "node list" where
  "circle_then_box =
     [svg None [Elem Circle (no_props\<lparr>p_cx := Some (Fin 100), p_cy := Some (Fin 100),
                                      p_radius := Some (Fin 50),
                                      p_onClick := Some (throwing 0 ''fail'')\<rparr>) NoKids,
                Elem Other (clickable 50 50 200 200 (returning 1)) NoKids]]"

text \<open>One top-level child that is itself clickable.\<close>

definition top_level_box :: "node list" where
  "top_level_box = [Elem Other (clickable 0 0 100 100 (returning 0)) NoKids]"

text \<open>
  Two top-level siblings of heights 50 and 100; the second holds a clickable box at
  local \<open>y = 10\<close>.
\<close>

definition stacked :: "node list" where
  "stacked =
     [svg (Some (Fin 50)) [Elem Other (box 0 0 100 50) NoKids],
      svg (Some (Fin 100)) [Elem Other (clickable 0 10 100 20 (returning 0)) NoKids]]"

text \<open>A clickable top-level child with one child of its own.\<close>

definition clickable_parent :: "node list" where
  "clickable_parent =
     [Elem Other (clickable 0 0 100 100 (returning 0)) (One (Elem Other (box 0 0 10 10) NoKids))]"

definition quadrilateral_points :: string where
  "quadrilateral_points = ''0,0 100,10 90,100 10,90''"

definition quadrilateral :: props where
  "quadrilateral = no_props\<lparr>p_points := Some quadrilateral_points\<rparr>"



text \<open>The whole path: build the registry of a tree, then dispatch one bridge payload.\<close>

definition click_on :: "node list \<Rightarrow> string \<Rightarrow> error + thrown option \<times> event list" where
  "click_on children output =
     (case build children of
        Inl e \<Rightarrow> Inl e
      | Inr reg \<Rightarrow> Inr (clickHandler reg output []))"







section \<open>Reading a registry back\<close>

text \<open>
  The properties of the element a handler was made of, the properties of the
  interactive elements of a list of nodes, and whether a node has children to descend
  into.
\<close>

fun handler_props :: "handler \<Rightarrow> props" where
  "handler_props (TopLevel p cb) = p"
| "handler_props (Nested k p cb w h) = p"

fun is_nested :: "handler \<Rightarrow> bool" where
  "is_nested (TopLevel p cb) = False"
| "is_nested (Nested k p cb w h) = True"

fun interactive_props :: "node list \<Rightarrow> props list" where
  "interactive_props [] = []"
| "interactive_props (Str s # ns) = interactive_props ns"
| "interactive_props (Elem k p ks # ns) =
     (if p_onClick p = None then interactive_props ns else p # interactive_props ns)"

fun has_kids :: "node \<Rightarrow> bool" where
  "has_kids (Str s) = False"
| "has_kids (Elem k p ks) = kids_truthy ks"

definition registered_once :: "node \<Rightarrow> bool" where
  "registered_once c = (if interactive c then \<not> has_kids c else True)"





text \<open>
  A clickable top-level child whose callback throws, declared before a top-level child
  that holds a clickable box.
\<close>

definition top_level_throwing :: "node list" where
  "top_level_throwing =
     [Elem Other (clickable 0 0 100 100 (throwing 0 ''fail'')) NoKids,
      svg None [Elem Other (clickable 0 0 100 100 (returning 1)) NoKids]]"

text \<open>
  Handlers of a box away from \<open>(115, 115)\<close> and of a box that covers it, and a circle
  around \<open>(115, 115)\<close>.
\<close>

definition far_box :: handler where
  "far_box = Nested Other (box 300 300 50 50) (returning 2) (Some (Fin 50)) (Some (Fin 50))"

definition cover_box :: handler where
  "cover_box = Nested Other (box 50 50 200 200) (returning 1) (Some (Fin 200)) (Some (Fin 200))"

definition centre_circle :: props where
  "centre_circle =
     no_props\<lparr>p_cx := Some (Fin 100), p_cy := Some (Fin 100), p_radius := Some (Fin 50)\<rparr>"

section \<open>Evaluation\<close>

text \<open>
  The comparison \<open>Math.sqrt(a) < r\<close> without the square root, so that the circle test
  evaluates on rational inputs.
\<close>

lemma sqrt_less_code [code]:
  "sqrt_less (Fin a) (Fin r) = (0 \<le> a \<and> 0 < r \<and> a < r * r)"
  "sqrt_less (Fin a) PosInf = (0 \<le> a)"
  "sqrt_less (Fin a) NegInf = False"
  "sqrt_less PosInf v = False"
  "sqrt_less NegInf v = False"
  "sqrt_less NaN v = False"
  "sqrt_less u NaN = False"
proof -
  show "sqrt_less (Fin a) (Fin r) = (0 \<le> a \<and> 0 < r \<and> a < r * r)"
  proof (cases "0 \<le> a \<and> 0 < r")
    case True
    then have "sqrt (r * r) = r" by simp
    then have "(sqrt a < r) = (a < r * r)"
      using real_sqrt_less_iff [of a "r * r"] by simp
    with True show ?thesis by (simp add: sqrt_less_def)
  next
    case False
    have "0 \<le> a \<Longrightarrow> r \<le> 0 \<Longrightarrow> \<not> sqrt a < r"
      using real_sqrt_ge_zero [of a] by linarith
    with False show ?thesis by (auto simp: sqrt_less_def not_less)
  qed
  show "sqrt_less u NaN = False" by (cases u) (simp_all add: sqrt_less_def)
  show "sqrt_less PosInf v = False" by (cases v) (simp_all add: sqrt_less_def)
qed (simp_all add: sqrt_less_def)

text \<open>The definitions that a concrete evaluation unfolds.\<close>

lemmas ex_defs =
  no_props_def box_def returning_def throwing_def throwing_null_def clickable_def svg_def

lemmas num_defs =
  jsub_def jgt_def jge_def inf_of_def Math_pow2_def Math_min_def Math_max_def margin_def
  or_default_def


section \<open>Arithmetic on the special values\<close>

text \<open>\<open>NaN\<close> is absorbing, and every comparison with it fails.\<close>

lemma jadd_NaN [simp]: "jadd a NaN = NaN"
  by (cases a) simp_all

lemma jsub_NaN [simp]: "jsub a NaN = NaN" "jsub NaN b = NaN"
  by (simp_all add: jsub_def)

lemma jmul_NaN [simp]: "jmul a NaN = NaN"
  by (cases a) simp_all

lemma jdiv_NaN [simp]: "jdiv a NaN = NaN"
  by (cases a) simp_all

lemma jlt_NaN [simp]: "\<not> jlt a NaN"
  by (cases a) simp_all

lemma jle_NaN [simp]: "\<not> jle a NaN"
  by (cases a) simp_all

lemma sqrt_less_NaN [simp]: "\<not> sqrt_less NaN r"
  by (simp add: sqrt_less_def)


lemma jmul_nonfinite_right: "\<not> isFinite b \<Longrightarrow> \<not> isFinite (jmul a b)"
  by (cases a; cases b) (simp_all add: inf_of_def)

lemma jadd_nonfinite_left: "\<not> isFinite a \<Longrightarrow> \<not> isFinite (jadd a b)"
  by (cases a; cases b) simp_all







section \<open>The dispatcher\<close>

text \<open>
  A handler that misses the point calls nothing and returns \<open>false\<close>; one that hits
  it and whose callback returns calls the callback and returns \<open>true\<close>.
\<close>

lemma run_handler_miss:
  "misses hgt x y c \<Longrightarrow> run_handler hgt c x y tr = (Inr False, tr)"
  by (cases c) (simp_all add: misses_def)


lemma scan_skips_misses:
  "list_all (misses hgt x y) pre \<Longrightarrow> scan hgt (pre @ cs) x y tr = scan hgt cs x y tr"
  by (induction pre) (simp_all add: run_handler_miss)





text \<open>
  C2, as the code has it. For a click event whose coordinate lies inside a region whose
  callback throws, and inside no region declared before it:
  if the region is nested and the thrown value is not \<open>null\<close> or \<open>undefined\<close>, the
  exception is caught and its message is logged, the handler returns \<open>false\<close>, and
  the dispatcher goes on to the later regions of the registry for the same event (a
  throwing handler falls through to the next region);
  if the region is nested and the thrown value is \<open>null\<close> or \<open>undefined\<close>, nothing
  is logged, a \<open>TypeError\<close> leaves the dispatcher and no later region is tried;
  if the region is a top-level child, the exception is not caught: it leaves the
  dispatcher, nothing is logged and no later region is tried.
\<close>

theorem C2_throwing_handler_falls_through:
  assumes "list_all (misses hgt x y) pre"
  shows "(Nested_hit k p w h x y = Inr True \<and> cb_throws cb x y = Some (Thrown msg) \<longrightarrow>
            run_handler hgt (Nested k p cb w h) x y tr =
              (Inr False, tr @ [Called (cb_id cb) x y, ConsoleLog msg]) \<and>
            scan hgt (pre @ Nested k p cb w h # post) x y tr =
              scan hgt post x y (tr @ [Called (cb_id cb) x y, ConsoleLog msg])) \<and>
         (Nested_hit k p w h x y = Inr True \<and> cb_throws cb x y = Some ThrownNullish \<longrightarrow>
            scan hgt (pre @ Nested k p cb w h # post) x y tr =
              (Some type_error, tr @ [Called (cb_id cb) x y])) \<and>
         (TopLevel_hit hgt tp x y \<and> cb_throws tcb x y = Some v \<longrightarrow>
            scan hgt (pre @ TopLevel tp tcb # post) x y tr =
              (Some v, tr @ [Called (cb_id tcb) x y]))"
proof (intro conjI impI)
  assume a: "Nested_hit k p w h x y = Inr True \<and> cb_throws cb x y = Some (Thrown msg)"
  then show one: "run_handler hgt (Nested k p cb w h) x y tr =
      (Inr False, tr @ [Called (cb_id cb) x y, ConsoleLog msg])"
    by simp
  then have "scan hgt (Nested k p cb w h # post) x y tr =
      scan hgt post x y (tr @ [Called (cb_id cb) x y, ConsoleLog msg])"
    by simp
  with scan_skips_misses [OF assms]
  show "scan hgt (pre @ Nested k p cb w h # post) x y tr =
      scan hgt post x y (tr @ [Called (cb_id cb) x y, ConsoleLog msg])"
    by simp
next
  assume "Nested_hit k p w h x y = Inr True \<and> cb_throws cb x y = Some ThrownNullish"
  then have "scan hgt (Nested k p cb w h # post) x y tr =
      (Some type_error, tr @ [Called (cb_id cb) x y])"
    by simp
  with scan_skips_misses [OF assms]
  show "scan hgt (pre @ Nested k p cb w h # post) x y tr =
      (Some type_error, tr @ [Called (cb_id cb) x y])"
    by simp
next
  assume "TopLevel_hit hgt tp x y \<and> cb_throws tcb x y = Some v"
  then have "scan hgt (TopLevel tp tcb # post) x y tr = (Some v, tr @ [Called (cb_id tcb) x y])"
    by simp
  with scan_skips_misses [OF assms]
  show "scan hgt (pre @ TopLevel tp tcb # post) x y tr =
      (Some v, tr @ [Called (cb_id tcb) x y])"
    by simp
qed

text \<open>
  An instance of C2, with a click at \<open>(115, 115)\<close> and a box away from the click
  declared first: a circle whose callback throws an error falls through to the box
  that covers it; a circle whose callback throws \<open>null\<close>, and a top-level box whose
  callback throws, end the dispatch with what was thrown.
\<close>

theorem C2_throwing_handler_falls_through_witness:
  "list_all (misses (Fin 0) (Fin 115) (Fin 115)) [far_box] \<and>
   Nested_hit Circle centre_circle None None (Fin 115) (Fin 115) = Inr True \<and>
   cb_throws (throwing 0 ''fail'') (Fin 115) (Fin 115) = Some (Thrown ''fail'') \<and>
   scan (Fin 0)
     [far_box, Nested Circle centre_circle (throwing 0 ''fail'') None None, cover_box]
     (Fin 115) (Fin 115) [] =
     (None, [Called 0 (Fin 115) (Fin 115), ConsoleLog ''fail'', Called 1 (Fin 115) (Fin 115)]) \<and>
   cb_throws (throwing_null 0) (Fin 115) (Fin 115) = Some ThrownNullish \<and>
   scan (Fin 0)
     [far_box, Nested Circle centre_circle (throwing_null 0) None None, cover_box]
     (Fin 115) (Fin 115) [] =
     (Some type_error, [Called 0 (Fin 115) (Fin 115)]) \<and>
   TopLevel_hit (Fin 0) (box 0 0 200 200) (Fin 115) (Fin 115) \<and>
   scan (Fin 0)
     [far_box, TopLevel (box 0 0 200 200) (throwing 0 ''fail''), cover_box]
     (Fin 115) (Fin 115) [] =
     (Some (Thrown ''fail''), [Called 0 (Fin 115) (Fin 115)])"
proof -
  have m: "list_all (misses (Fin 0) (Fin 115) (Fin 115)) [far_box]"
    by (simp add: misses_def far_box_def Nested_hit_def generic_hit_def ex_defs num_defs)
  have h: "Nested_hit Circle centre_circle None None (Fin 115) (Fin 115) = Inr True"
    by (simp add: Nested_hit_def Circle_doesContainPoint_def centre_circle_def sqrt_less_code
        ex_defs num_defs)
  have t: "cb_throws (throwing 0 ''fail'') (Fin 115) (Fin 115) = Some (Thrown ''fail'')"
    and t': "cb_throws (throwing_null 0) (Fin 115) (Fin 115) = Some ThrownNullish"
    by (simp_all add: throwing_def throwing_null_def)
  have i: "cb_id (throwing 0 ''fail'') = 0" "cb_id (throwing_null 0) = 0"
    by (simp_all add: throwing_def throwing_null_def)
  have g: "TopLevel_hit (Fin 0) (box 0 0 200 200) (Fin 115) (Fin 115)"
    by (simp add: TopLevel_hit_def ex_defs num_defs)
  have c: "scan (Fin 0) [cover_box] (Fin 115) (Fin 115)
      [Called 0 (Fin 115) (Fin 115), ConsoleLog ''fail''] =
      (None, [Called 0 (Fin 115) (Fin 115), ConsoleLog ''fail'', Called 1 (Fin 115) (Fin 115)])"
    by (simp add: cover_box_def Nested_hit_def generic_hit_def ex_defs num_defs)
  have one: "scan (Fin 0)
      [far_box, Nested Circle centre_circle (throwing 0 ''fail'') None None, cover_box]
      (Fin 115) (Fin 115) [] =
      (None, [Called 0 (Fin 115) (Fin 115), ConsoleLog ''fail'', Called 1 (Fin 115) (Fin 115)])"
    using C2_throwing_handler_falls_through [OF m, where k = Circle and p = centre_circle
        and w = None and h = None and cb = "throwing 0 ''fail''" and msg = "''fail''"
        and tr = "[]" and post = "[cover_box]"] h t c
    by (simp add: i)
  have two: "scan (Fin 0)
      [far_box, Nested Circle centre_circle (throwing_null 0) None None, cover_box]
      (Fin 115) (Fin 115) [] =
      (Some type_error, [Called 0 (Fin 115) (Fin 115)])"
    using C2_throwing_handler_falls_through [OF m, where k = Circle and p = centre_circle
        and w = None and h = None and cb = "throwing_null 0"
        and tr = "[]" and post = "[cover_box]"] h t'
    by (simp add: i)
  have three: "scan (Fin 0)
      [far_box, TopLevel (box 0 0 200 200) (throwing 0 ''fail''), cover_box]
      (Fin 115) (Fin 115) [] =
      (Some (Thrown ''fail''), [Called 0 (Fin 115) (Fin 115)])"
    using C2_throwing_handler_falls_through [OF m, where tp = "box 0 0 200 200"
        and tcb = "throwing 0 ''fail''" and v = "Thrown ''fail''"
        and tr = "[]" and post = "[cover_box]"] g t
    by (simp add: i)
  from m h t t' g one two three show ?thesis by blast
qed

text \<open>
  C2 as the specification states it fails in three ways. After the callback of the
  circle has thrown an error and the message is logged, the later region is tried and
  its callback is called. When the callback of a nested box throws \<open>null\<close>, nothing
  is logged and a \<open>TypeError\<close> leaves the dispatcher. When the callback of a
  top-level child throws, nothing is caught or logged and the error leaves the
  dispatcher.
\<close>

theorem C2_fall_through_counterexample:
  "click_on circle_then_box ''115,115'' =
     Inr (None, [Called 0 (Fin 115) (Fin 115), ConsoleLog ''fail'',
                 Called 1 (Fin 115) (Fin 115)]) \<and>
   click_on (overlapping (throwing_null 0) (returning 1)) ''50,50'' =
     Inr (Some type_error, [Called 0 (Fin 50) (Fin 50)]) \<and>
   click_on top_level_throwing ''50,50'' =
     Inr (Some (Thrown ''fail''), [Called 0 (Fin 50) (Fin 50)])"
  by code_simp

section \<open>Malformed payloads\<close>

text \<open>
  A payload that does not split into two components is dropped. One that does is
  dispatched even when a component is no number; the coordinate is then \<open>NaN\<close>, which
  every test of a nested handler rejects.
\<close>

lemma wrong_arity_discarded:
  "length (split_on (CHR '','') output) \<noteq> 2 \<Longrightarrow> clickHandler reg output tr = (None, tr)"
  by (simp add: clickHandler_def)

lemma Line_NaN: "x = NaN \<or> y = NaN \<Longrightarrow> \<not> Line_doesContainPoint p x y"
  by (auto simp: Line_doesContainPoint_def Let_def)

lemma Circle_NaN: "x = NaN \<or> y = NaN \<Longrightarrow> \<not> Circle_doesContainPoint p x y"
  by (auto simp: Circle_doesContainPoint_def Let_def Math_pow2_def)

lemma Ellipse_NaN: "x = NaN \<or> y = NaN \<Longrightarrow> \<not> Ellipse_doesContainPoint p x y"
  by (auto simp: Ellipse_doesContainPoint_def Let_def Math_pow2_def)

lemma Toggle_NaN: "x = NaN \<or> y = NaN \<Longrightarrow> \<not> Toggle_doesContainPoint p x y"
  by (auto simp: Toggle_doesContainPoint_def Let_def jge_def)

lemma generic_NaN: "x = NaN \<or> y = NaN \<Longrightarrow> \<not> generic_hit p w h x y"
  by (auto simp: generic_hit_def jgt_def)

lemma intersection_NaN_slope: "fst (intersection NaN ray_b e) = NaN"
  by (simp add: intersection_def Let_def split: prod.split)

lemma intersections_NaN: "x = NaN \<or> y = NaN \<Longrightarrow> intersections pts x y = 0"
proof (cases pts)
  case Nil
  then show ?thesis by (simp add: intersections_def)
next
  case (Cons p0 rest)
  assume "x = NaN \<or> y = NaN"
  then have m: "jdiv (jsub y (Fin (- 100))) (jsub x (fst p0)) = NaN"
    by auto
  have "\<not> counted bb r1 r2 (intersection NaN ray_b e)" for bb r1 r2 ray_b e
    using intersection_NaN_slope [of ray_b e]
    by (cases "intersection NaN ray_b e") (simp add: counted_def split: prod.split)
  then show ?thesis
    by (simp add: intersections_def Cons Let_def m)
qed

lemma Polygon_NaN: "x = NaN \<or> y = NaN \<Longrightarrow> Polygon_doesContainPoint p x y \<noteq> Inr True"
  by (simp add: Polygon_doesContainPoint_def Let_def intersections_NaN split: option.split)

lemma Nested_hit_NaN: "x = NaN \<or> y = NaN \<Longrightarrow> Nested_hit k p w h x y \<noteq> Inr True"
  by (simp add: Nested_hit_def Line_NaN Circle_NaN Ellipse_NaN Polygon_NaN Toggle_NaN generic_NaN)

text \<open>So a registry of nested handlers calls no callback on such a coordinate.\<close>

lemma scan_nested_NaN:
  "list_all is_nested cs \<Longrightarrow> x = NaN \<or> y = NaN \<Longrightarrow> snd (scan hgt cs x y tr) = tr"
proof (induction cs)
  case Nil
  then show ?case by simp
next
  case (Cons c cs)
  show ?case
  proof (cases c)
    case (TopLevel p cb)
    with Cons.prems show ?thesis by simp
  next
    case (Nested k p cb w h)
    from Cons.prems(2) have "Nested_hit k p w h x y \<noteq> Inr True"
      by (rule Nested_hit_NaN)
    with Cons Nested show ?thesis
      by (cases "Nested_hit k p w h x y") auto
  qed
qed

text \<open>
  C3 (the code departs from the claim). The payload \<open>abc,5\<close> has two components, so
  it is dispatched with \<open>x = NaN\<close>. The condition of a top-level handler is a
  disjunction, and \<open>5 < heightUpToNow + y + height\<close> holds: the callback of a clickable
  top-level child is invoked on a payload that is not two integers.
\<close>

theorem C3_malformed_payload_reaches_callback:
  "click_on top_level_box ''abc,5'' = Inr (None, [Called 0 NaN (Fin 5)])"
  by code_simp

section \<open>Hit boxes\<close>

text \<open>
  A nested handler never reads \<open>heightUpToNow\<close>: its result is the same under every
  stacking offset.
\<close>

lemma nested_handler_ignores_height:
  "run_handler h1 (Nested k p cb w h) x y tr = run_handler h2 (Nested k p cb w h) x y tr"
  by simp

text \<open>
  C4 (the code departs from the claim). Two top-level siblings of heights 50 and 100;
  the second holds a clickable box at local \<open>y = 10\<close> of height 20. The builder sums
  the heights (\<open>heightUpToNow\<close> ends at 150), but the handler of the nested box tests
  the local coordinates: a click at \<open>y = 27\<close> hits it and a click at \<open>y = 77\<close>, the
  same point translated by the height 50 of the first sibling, does not.
\<close>

theorem C4_nested_ignores_stacking_offset:
  "click_on stacked ''50,27'' = Inr (None, [Called 0 (Fin 50) (Fin 27)]) \<and>
   click_on stacked ''50,77'' = Inr (None, [])"
  by code_simp

text \<open>
  The test of a nested generic element with finite position and dimensions is the one
  of the specification: the open intervals with the margin of 15.
\<close>

lemma generic_hit_iff:
  assumes "p_x p = Some (Fin a)" and "p_y p = Some (Fin b)"
  shows "generic_hit p (Some (Fin w)) (Some (Fin h)) (Fin px) (Fin py) =
         (a + 15 < px \<and> px < a + w - 15 \<and> b + 15 < py \<and> py < b + h)"
  using assms by (simp add: generic_hit_def jgt_def jsub_def margin_def add.commute)

text \<open>
  C5 (the code departs from the claim). For a generic element that is itself a
  top-level child the handler tests a disjunction without margins: the box at
  \<open>(0, 0)\<close> of width and height 100 is hit by a click at \<open>(500, 500)\<close>, far outside
  the intervals \<open>(15, 85)\<close> and \<open>(15, 100)\<close> of the claim.
\<close>

theorem C5_top_level_hit_outside_box:
  "click_on top_level_box ''500,500'' = Inr (None, [Called 0 (Fin 500) (Fin 500)]) \<and>
   \<not> generic_hit (clickable 0 0 100 100 (returning 0)) (Some (Fin 100)) (Some (Fin 100))
        (Fin 500) (Fin 500)"
  by code_simp

section \<open>Errors of the registry builder\<close>







section \<open>Polygons\<close>

text \<open>A point outside the bounding box is rejected before any ray is cast.\<close>

lemma Polygon_outside_box:
  "p_points p = Some s \<Longrightarrow> outside_box (bounding_box (Polygon_points s)) x y \<Longrightarrow>
   Polygon_doesContainPoint p x y = Inr False"
  by (simp add: Polygon_doesContainPoint_def)

text \<open>
  C7 (the code departs from the claim). The loop restricts a crossing to the ray's
  bounding segment and to the polygon's bounding box, not to the bounding segment of the
  edge. For the quadrilateral \<open>0,0 100,10 90,100 10,90\<close> and the click \<open>(20, 105)\<close>,
  below the polygon, the line of the third edge meets the ray at \<open>x = 6535/327\<close>, left
  of the edge (which spans \<open>25 \<le> x \<le> 105\<close>): the code counts it, finds three crossings
  and answers \<open>true\<close>; with the restriction to the edge there are two and the answer
  is \<open>false\<close>.
\<close>

theorem C7_edge_bounds_not_checked:
  "intersections (Polygon_points quadrilateral_points) (Fin 20) (Fin 105) = 3 \<and>
   intersections_spec (Polygon_points quadrilateral_points) (Fin 20) (Fin 105) = 2 \<and>
   Polygon_doesContainPoint quadrilateral (Fin 20) (Fin 105) = Inr True \<and>
   Polygon_doesContainPoint_spec quadrilateral (Fin 20) (Fin 105) = Inr False"
  by code_simp

section \<open>Order and number of the handlers\<close>

text \<open>
  When the build succeeds and no clickable top-level child has children of its own, the
  registry lists the interactive elements in traversal order, one handler each.
\<close>

lemma register_nested_props:
  "register_nested n = Inr hs \<Longrightarrow> map handler_props hs = interactive_props [n]"
  by (cases n) (auto split: option.splits if_splits sum.splits)

lemma interactive_props_append:
  "interactive_props (ms @ ns) = interactive_props ms @ interactive_props ns"
  by (induction ms rule: interactive_props.induct) simp_all

lemma register_all_props:
  "register_all ns acc = Inr hs \<Longrightarrow>
   map handler_props hs = map handler_props acc @ interactive_props ns"
proof (induction ns arbitrary: acc)
  case Nil
  then show ?case by simp
next
  case (Cons n ns)
  then obtain h1 where h1: "register_nested n = Inr h1" and rest: "register_all ns (acc @ h1) = Inr hs"
    by (auto split: sum.splits)
  from Cons.IH [OF rest] register_nested_props [OF h1]
  have "map handler_props hs = map handler_props acc @ interactive_props [n] @ interactive_props ns"
    by simp
  then show ?case
    using interactive_props_append [of "[n]" ns] by simp
qed

lemma childless_listing: "\<not> kids_truthy ks \<Longrightarrow> getChildrenRecursive (Elem k p ks) = [Elem k p ks]"
  by (cases ks) simp_all

lemma build_loop_props:
  "build_loop cs acc hgt = Inr (hs, hgt') \<Longrightarrow> list_all registered_once cs \<Longrightarrow>
   map handler_props hs =
     map handler_props acc @ interactive_props (concat (map getChildrenRecursive cs))"
proof (induction cs arbitrary: acc hgt)
  case Nil
  then show ?case by simp
next
  case (Cons c cs)
  show ?case
  proof (cases c)
    case (Str s)
    with Cons.prems show ?thesis by simp
  next
    case (Elem k p ks)
    define acc1 where "acc1 = (case p_onClick p of None \<Rightarrow> acc | Some cb \<Rightarrow> acc @ [TopLevel p cb])"
    have "build_loop (c # cs) acc hgt =
        (case (if kids_truthy ks then register_all (getChildrenRecursive c) acc1 else Inr acc1) of
           Inl e \<Rightarrow> Inl e
         | Inr acc2 \<Rightarrow> build_loop cs acc2 (jadd hgt (or_default (p_height p) (Fin 0))))"
      by (simp add: Elem acc1_def Let_def)
    with Cons.prems(1) obtain acc2 where
      step: "(if kids_truthy ks then register_all (getChildrenRecursive c) acc1 else Inr acc1) = Inr acc2"
      and rest: "build_loop cs acc2 (jadd hgt (or_default (p_height p) (Fin 0))) = Inr (hs, hgt')"
      by (auto split: sum.splits)
    from Cons.prems(2) have once: "registered_once c" and others: "list_all registered_once cs"
      by simp_all
    have "map handler_props acc2 = map handler_props acc @ interactive_props (getChildrenRecursive c)"
    proof (cases "kids_truthy ks")
      case True
      with once Elem have "acc1 = acc"
        by (cases "p_onClick p") (simp_all add: registered_once_def acc1_def)
      with True step register_all_props [of "getChildrenRecursive c" acc acc2]
      show ?thesis by simp
    next
      case False
      with step have "acc2 = acc1" by simp
      with False Elem show ?thesis
        by (simp add: childless_listing acc1_def split: option.split)
    qed
    with Cons.IH [OF rest others] show ?thesis
      by (simp add: interactive_props_append)
  qed
qed

lemma length_interactive_props: "length (interactive_props ns) = length (filter interactive ns)"
  by (induction ns rule: interactive_props.induct) simp_all

lemma registry_in_traversal_order:
  assumes "build children = Inr reg" and "list_all registered_once children"
  shows "map handler_props (handlers reg) =
           interactive_props (concat (map getChildrenRecursive children)) \<and>
         length (handlers reg) = length (interactive_nodes children)"
proof -
  from assms(1) obtain hs hgt where b: "build_loop children [] (Fin 0) = Inr (hs, hgt)"
    and reg: "reg = \<lparr>handlers = hs, heightUpToNow = hgt\<rparr>"
    by (auto simp: build_def split: sum.splits)
  from build_loop_props [OF b assms(2)] reg
  have m: "map handler_props (handlers reg) =
      interactive_props (concat (map getChildrenRecursive children))"
    by simp
  have "length (handlers reg) =
      length (interactive_props (concat (map getChildrenRecursive children)))"
    using arg_cong [OF m, of length] by simp
  then have "length (handlers reg) = length (interactive_nodes children)"
    by (simp add: length_interactive_props interactive_nodes_def)
  with m show ?thesis by blast
qed

text \<open>
  C8 (the code departs from the claim). A top-level child that carries a callback and has
  a child is pushed by the branch for top-level children and again by the inner loop,
  because \<open>getChildrenRecursive child\<close> lists the child itself first: the tree has
  one interactive node and the registry two handlers.
\<close>

theorem C8_clickable_parent_registered_twice:
  "length (interactive_nodes clickable_parent) = 1 \<and>
   build clickable_parent =
     Inr \<lparr>handlers =
            [TopLevel (clickable 0 0 100 100 (returning 0)) (returning 0),
             Nested Other (clickable 0 0 100 100 (returning 0)) (returning 0)
               (Some (Fin 100)) (Some (Fin 100))],
          heightUpToNow = Fin 100\<rparr>"
  by (simp add: interactive_nodes_def clickable_parent_def build_def ex_defs num_defs)

section \<open>Degenerate geometry\<close>









section \<open>Text and link dimensions\<close>




text \<open>
  The rounding at work: the literal \<open>1.1\<close> as a double, and the height of a one-line
  text at font size 25, the double \<open>55.00000000000001\<close> above 55.
\<close>

lemma literal_1_1: "to_double (11 / 10) = Fin (2476979795053773 / 2251799813685248)"
  by code_simp

lemma textHeight_font_25:
  "textHeight (Some (Fin 25)) ''Hi'' = Fin (7740561859543041 / 140737488355328) \<and>
   (55 :: real) < 7740561859543041 / 140737488355328"
  by code_simp




end
